theory Spec2Isabelle
  imports Main
begin

section \<open>Python values\<close>

text \<open>
  A Python \<open>str\<close> is a sequence of code points, a \<open>bytes\<close> object a sequence of
  integers below 256. The values a request can carry are the values of parsed JSON
  (without floating-point numbers, which the handler treats like any other non-string)
  and the strings of a form. A \<open>PDict\<close> lists the items of a parsed object, keys distinct.
\<close>

type_synonym pystr = "nat list"
type_synonym bytes = "nat list"

datatype pyval =
    PNone
  | PBool bool
  | PInt int
  | PStr pystr
  | PList "pyval list"
  | PDict "(pystr \<times> pyval) list"

definition ascii :: "string \<Rightarrow> pystr" where
  "ascii s = map of_char s"

text \<open>Truth value testing, as \<open>not x\<close> does it.\<close>

fun truthy :: "pyval \<Rightarrow> bool" where
  "truthy PNone = False"
| "truthy (PBool b) = b"
| "truthy (PInt i) = (i \<noteq> 0)"
| "truthy (PStr s) = (s \<noteq> [])"
| "truthy (PList xs) = (xs \<noteq> [])"
| "truthy (PDict kvs) = (kvs \<noteq> [])"

fun type_name :: "pyval \<Rightarrow> pystr" where
  "type_name PNone = ascii ''NoneType''"
| "type_name (PBool b) = ascii ''bool''"
| "type_name (PInt i) = ascii ''int''"
| "type_name (PStr s) = ascii ''str''"
| "type_name (PList xs) = ascii ''list''"
| "type_name (PDict kvs) = ascii ''dict''"

subsection \<open>Exceptions\<close>

datatype exn_class =
    OperationalError
  | IntegrityError
  | DatabaseError
  | AttributeError
  | TypeError
  | IndexError
  | UnicodeEncodeError
  | UnicodeDecodeError

datatype exn = Exn exn_class pystr

fun class_of :: "exn \<Rightarrow> exn_class" where
  "class_of (Exn c m) = c"

text \<open>\<open>str(e)\<close>\<close>

fun str_exn :: "exn \<Rightarrow> pystr" where
  "str_exn (Exn c m) = m"

definition no_attribute :: "pyval \<Rightarrow> string \<Rightarrow> exn" where
  "no_attribute v a =
     Exn AttributeError
       ([39] @ type_name v @ [39] @ ascii '' object has no attribute '' @ [39] @ ascii a
          @ [39])"

subsection \<open>\<open>str.encode('utf-8')\<close> and \<open>bytes.decode('utf-8')\<close>\<close>

text \<open>
  A code point is encoded unless it is a surrogate (\<open>U+D800\<close> to \<open>U+DFFF\<close>), for which
  \<open>encode\<close> raises \<open>UnicodeEncodeError\<close>. Only \<open>str\<close> has the method.
\<close>

definition encodable :: "nat \<Rightarrow> bool" where
  "encodable c = (c < 0xD800 \<or> (0xDFFF < c \<and> c < 0x110000))"

definition utf8 :: "nat \<Rightarrow> bytes" where
  "utf8 c =
     (if c < 0x80 then [c]
      else if c < 0x800 then [0xC0 + c div 64, 0x80 + c mod 64]
      else if c < 0x10000 then
        [0xE0 + c div 4096, 0x80 + (c div 64) mod 64, 0x80 + c mod 64]
      else
        [0xF0 + c div 262144, 0x80 + (c div 4096) mod 64, 0x80 + (c div 64) mod 64,
         0x80 + c mod 64])"

fun encode :: "pyval \<Rightarrow> exn + bytes" where
  "encode (PStr s) =
     (if list_all encodable s then Inr (concat (map utf8 s))
      else Inl (Exn UnicodeEncodeError (ascii ''surrogates not allowed'')))"
| "encode v = Inl (no_attribute v ''encode'')"

definition continuation :: "nat \<Rightarrow> bool" where
  "continuation b = (0x80 \<le> b \<and> b < 0xC0)"

fun utf8_decode :: "bytes \<Rightarrow> pystr option" where
  "utf8_decode [] = Some []"
| "utf8_decode (b # bs) =
     (if b < 0x80 then map_option ((#) b) (utf8_decode bs)
      else if 0xC2 \<le> b \<and> b < 0xE0 then
        (case bs of
           c1 # r \<Rightarrow>
             if continuation c1
             then map_option ((#) ((b - 0xC0) * 64 + (c1 - 0x80))) (utf8_decode r)
             else None
         | _ \<Rightarrow> None)
      else if 0xE0 \<le> b \<and> b < 0xF0 then
        (case bs of
           c1 # c2 # r \<Rightarrow>
             if continuation c1 \<and> continuation c2
                \<and> 0x800 \<le> (b - 0xE0) * 4096 + (c1 - 0x80) * 64 + (c2 - 0x80)
                \<and> encodable ((b - 0xE0) * 4096 + (c1 - 0x80) * 64 + (c2 - 0x80))
             then map_option ((#) ((b - 0xE0) * 4096 + (c1 - 0x80) * 64 + (c2 - 0x80)))
                    (utf8_decode r)
             else None
         | _ \<Rightarrow> None)
      else if 0xF0 \<le> b \<and> b < 0xF5 then
        (case bs of
           c1 # c2 # c3 # r \<Rightarrow>
             if continuation c1 \<and> continuation c2 \<and> continuation c3
                \<and> 0x10000 \<le> (b - 0xF0) * 262144 + (c1 - 0x80) * 4096 + (c2 - 0x80) * 64
                                + (c3 - 0x80)
                \<and> (b - 0xF0) * 262144 + (c1 - 0x80) * 4096 + (c2 - 0x80) * 64 + (c3 - 0x80)
                    < 0x110000
             then map_option
                    ((#) ((b - 0xF0) * 262144 + (c1 - 0x80) * 4096 + (c2 - 0x80) * 64
                           + (c3 - 0x80)))
                    (utf8_decode r)
             else None
         | _ \<Rightarrow> None)
      else None)"

definition decode :: "bytes \<Rightarrow> exn + pystr" where
  "decode bs =
     (case utf8_decode bs of
        Some s \<Rightarrow> Inr s
      | None \<Rightarrow> Inl (Exn UnicodeDecodeError (ascii ''invalid utf-8'')))"

section \<open>The request, the environment and the world\<close>

text \<open>
  Of a request the handler sees two things: the value of
  \<open>request.get_json(silent=True)\<close>, which is \<open>None\<close> when the body carries no JSON
  (or JSON that does not parse, or the literal \<open>null\<close>), and \<open>request.form\<close>, whose
  \<open>get\<close> gives the first value of a key.
\<close>

record request =
  get_json :: pyval
  form :: "(pystr \<times> pystr) list"

record response =
  status :: nat
  body :: "(string \<times> pyval) list"

text \<open>
  What one call meets outside the program: whether \<open>psycopg2.connect\<close> raises
  \<open>OperationalError\<close> (and its text), the salt \<open>bcrypt.gensalt()\<close> draws, the function
  \<open>bcrypt.hashpw\<close> of the library, and the exception, if any, with which the store
  fails the \<open>execute\<close> or the \<open>commit\<close> for a reason of its own.
\<close>

record env =
  connect_error :: "pystr option"
  gensalt :: bytes
  hashpw :: "bytes \<Rightarrow> bytes \<Rightarrow> bytes"
  execute_fault :: "exn option"
  commit_fault :: "exn option"

record user_row =
  row_id :: int
  row_username :: pyval
  row_email :: pyval
  row_password_hash :: pystr

datatype call = Connect | Cursor | Execute | Fetchone | Commit | Rollback | CursorClose | ConnClose

text \<open>
  The world a call runs in: the committed rows of table \<open>users\<close>, the rows written in
  the open transaction, the next identifier of the sequence, the row the cursor holds after
  a statement, the connections and cursors that are open, the lines printed to the log, and
  the calls made to the driver, in order.
\<close>

record world =
  users :: "user_row list"
  pending :: "user_row list"
  next_id :: int
  cursor_row :: "pyval list option"
  open_conns :: nat
  open_cursors :: nat
  printed :: "pystr list"
  calls :: "call list"

section \<open>The store\<close>

text \<open>
  Modelled from the spec: the store (a PostgreSQL server reached through psycopg2) is an
  external collaborator of this program. Table \<open>users\<close> has a store-generated \<open>id\<close> and
  uniqueness constraints on \<open>username\<close> and on \<open>email\<close>; a statement that violates one
  raises \<open>IntegrityError\<close> and writes nothing; \<open>commit\<close> makes the rows of the
  transaction durable, \<open>rollback\<close> and closing the connection discard them.
\<close>

definition duplicate :: "pyval \<Rightarrow> pyval \<Rightarrow> user_row list \<Rightarrow> bool" where
  "duplicate u e rs = list_ex (\<lambda>r. row_username r = u \<or> row_email r = e) rs"

definition unique_violation :: exn where
  "unique_violation =
     Exn IntegrityError (ascii ''duplicate key value violates unique constraint'')"

definition insert_raises :: "env \<Rightarrow> pyval \<Rightarrow> pyval \<Rightarrow> user_row list \<Rightarrow> exn option" where
  "insert_raises env u e rs =
     (case execute_fault env of
        Some x \<Rightarrow> Some x
      | None \<Rightarrow> if duplicate u e rs then Some unique_violation else None)"

definition cursor_execute ::
    "env \<Rightarrow> pyval \<Rightarrow> pyval \<Rightarrow> pystr \<Rightarrow> world \<Rightarrow> (exn + unit) \<times> world" where
  "cursor_execute env u e h w =
     (case insert_raises env u e (users w @ pending w) of
        Some x \<Rightarrow> (Inl x, w\<lparr>calls := calls w @ [Execute]\<rparr>)
      | None \<Rightarrow>
          (Inr (),
           w\<lparr>pending :=
                pending w
                  @ [\<lparr>row_id = next_id w, row_username = u, row_email = e,
                      row_password_hash = h\<rparr>],
              next_id := next_id w + 1,
              cursor_row := Some [PInt (next_id w)],
              calls := calls w @ [Execute]\<rparr>))"

text \<open>\<open>cursor.fetchone()[0]\<close>\<close>

definition fetchone_0 :: "world \<Rightarrow> (exn + pyval) \<times> world" where
  "fetchone_0 w =
     (case cursor_row w of
        None \<Rightarrow>
          (Inl (Exn TypeError ([39] @ ascii ''NoneType'' @ [39]
                  @ ascii '' object is not subscriptable'')),
           w\<lparr>calls := calls w @ [Fetchone]\<rparr>)
      | Some [] \<Rightarrow>
          (Inl (Exn IndexError (ascii ''tuple index out of range'')),
           w\<lparr>calls := calls w @ [Fetchone]\<rparr>)
      | Some (v # vs) \<Rightarrow> (Inr v, w\<lparr>calls := calls w @ [Fetchone]\<rparr>))"

definition conn_commit :: "env \<Rightarrow> world \<Rightarrow> (exn + unit) \<times> world" where
  "conn_commit env w =
     (case commit_fault env of
        Some x \<Rightarrow> (Inl x, w\<lparr>calls := calls w @ [Commit]\<rparr>)
      | None \<Rightarrow>
          (Inr (),
           w\<lparr>users := users w @ pending w, pending := [], calls := calls w @ [Commit]\<rparr>))"

definition conn_rollback :: "world \<Rightarrow> world" where
  "conn_rollback w = w\<lparr>pending := [], calls := calls w @ [Rollback]\<rparr>"

definition conn_cursor :: "world \<Rightarrow> world" where
  "conn_cursor w =
     w\<lparr>cursor_row := None, open_cursors := Suc (open_cursors w),
       calls := calls w @ [Cursor]\<rparr>"

definition cursor_close :: "world \<Rightarrow> world" where
  "cursor_close w =
     w\<lparr>cursor_row := None, open_cursors := open_cursors w - 1,
       calls := calls w @ [CursorClose]\<rparr>"

definition conn_close :: "world \<Rightarrow> world" where
  "conn_close w =
     w\<lparr>pending := [], open_conns := open_conns w - 1, calls := calls w @ [ConnClose]\<rparr>"

section \<open>The program\<close>

subsection \<open>\<open>get_db_connection\<close>\<close>

datatype conn = Conn

definition get_db_connection :: "env \<Rightarrow> world \<Rightarrow> conn option \<times> world" where
  "get_db_connection env w =
     (case connect_error env of
        None \<Rightarrow>
          (Some Conn,
           w\<lparr>pending := [], open_conns := Suc (open_conns w), calls := calls w @ [Connect]\<rparr>)
      | Some e \<Rightarrow>
          (None,
           w\<lparr>printed :=
                printed w
                  @ [ascii ''ERROR: No se pudo conectar a la base de datos. Detalles: '' @ e],
              calls := calls w @ [Connect]\<rparr>))"

subsection \<open>\<open>register_user\<close>\<close>

datatype payload = Json pyval | Form "(pystr \<times> pystr) list"

definition request_data :: "request \<Rightarrow> payload" where
  "request_data req =
     (if get_json req = PNone then Form (form req) else Json (get_json req))"

text \<open>\<open>data.get(key)\<close>: a dict and the form have the method, no other JSON value has.\<close>

fun data_get :: "payload \<Rightarrow> string \<Rightarrow> exn + pyval" where
  "data_get (Form f) k =
     Inr (case map_of f (ascii k) of None \<Rightarrow> PNone | Some v \<Rightarrow> PStr v)"
| "data_get (Json (PDict kvs)) k =
     Inr (case map_of kvs (ascii k) of None \<Rightarrow> PNone | Some v \<Rightarrow> v)"
| "data_get (Json v) k = Inl (no_attribute v ''get'')"

text \<open>
  \<open>bcrypt.hashpw(password.encode('utf-8'), bcrypt.gensalt()).decode('utf-8')\<close>
\<close>

definition hash_password :: "env \<Rightarrow> pyval \<Rightarrow> exn + pystr" where
  "hash_password env password =
     (case encode password of
        Inl x \<Rightarrow> Inl x
      | Inr b \<Rightarrow> decode (hashpw env b (gensalt env)))"

definition msg_no_connection :: pystr where
  "msg_no_connection =
     ascii ''Error interno del servidor: Fall'' @ [243] @ ascii '' la conexi'' @ [243]
       @ ascii ''n a la base de datos.''"

definition msg_missing :: pystr where
  "msg_missing =
     ascii ''Faltan datos de usuario, correo o contrase'' @ [241] @ ascii ''a''"

definition msg_registered :: pystr where
  "msg_registered = ascii ''Usuario registrado exitosamente en la base de datos.''"

definition msg_duplicate :: pystr where
  "msg_duplicate =
     ascii ''Error: El usuario o correo electr'' @ [243] @ ascii ''nico ya est'' @ [225]
       @ ascii '' registrado.''"

definition msg_internal :: pystr where
  "msg_internal = ascii ''Error interno al procesar el registro.''"

text \<open>The body of the \<open>try\<close> block: execute, fetch the identifier, commit, answer 201.\<close>

definition try_insert ::
    "env \<Rightarrow> pyval \<Rightarrow> pyval \<Rightarrow> pystr \<Rightarrow> world \<Rightarrow> (exn + response) \<times> world" where
  "try_insert env username email hashed_password w =
     (case cursor_execute env username email hashed_password w of
        (Inl x, w1) \<Rightarrow> (Inl x, w1)
      | (Inr _, w1) \<Rightarrow>
          (case fetchone_0 w1 of
             (Inl x, w2) \<Rightarrow> (Inl x, w2)
           | (Inr user_id, w2) \<Rightarrow>
               (case conn_commit env w2 of
                  (Inl x, w3) \<Rightarrow> (Inl x, w3)
                | (Inr _, w3) \<Rightarrow>
                    (Inr \<lparr>status = 201,
                          body = [(''message'', PStr msg_registered),
                                  (''user_id'', user_id),
                                  (''usuario'', username),
                                  (''correo'', email)]\<rparr>,
                     w3))))"

text \<open>The \<open>except\<close> clauses: \<open>IntegrityError\<close> first, then any other exception.\<close>

definition handle_exn :: "exn \<Rightarrow> world \<Rightarrow> response \<times> world" where
  "handle_exn x w =
     (if class_of x = IntegrityError
      then (\<lparr>status = 409, body = [(''message'', PStr msg_duplicate)]\<rparr>, conn_rollback w)
      else
        (\<lparr>status = 500,
          body = [(''message'', PStr msg_internal), (''error_detail'', PStr (str_exn x))]\<rparr>,
         (conn_rollback w)
           \<lparr>printed :=
              printed (conn_rollback w) @ [ascii ''Error al registrar usuario: '' @ str_exn x]\<rparr>))"

text \<open>
  The handler. \<open>Inl\<close> is an exception that leaves the function, \<open>Inr\<close> the response it
  returns. The statements before the \<open>try\<close> are outside every handler and outside the
  \<open>finally\<close>: an exception raised there leaves the function with the world as it is.
\<close>

definition register_user :: "env \<Rightarrow> request \<Rightarrow> world \<Rightarrow> (exn + response) \<times> world" where
  "register_user env req w =
     (case get_db_connection env w of
        (None, w0) \<Rightarrow>
          (Inr \<lparr>status = 500, body = [(''message'', PStr msg_no_connection)]\<rparr>, w0)
      | (Some conn, w0) \<Rightarrow>
          (case data_get (request_data req) ''username'' of
             Inl x \<Rightarrow> (Inl x, w0)
           | Inr username \<Rightarrow>
          (case data_get (request_data req) ''email'' of
             Inl x \<Rightarrow> (Inl x, w0)
           | Inr email \<Rightarrow>
          (case data_get (request_data req) ''password'' of
             Inl x \<Rightarrow> (Inl x, w0)
           | Inr password \<Rightarrow>
               if \<not> truthy username \<or> \<not> truthy email \<or> \<not> truthy password
               then (Inr \<lparr>status = 400, body = [(''message'', PStr msg_missing)]\<rparr>,
                     conn_close w0)
               else
                 (case hash_password env password of
                    Inl x \<Rightarrow> (Inl x, w0)
                  | Inr hashed_password \<Rightarrow>
                      (case try_insert env username email hashed_password (conn_cursor w0) of
                         (Inr r, w1) \<Rightarrow> (Inr r, conn_close (cursor_close w1))
                       | (Inl x, w1) \<Rightarrow>
                           (case handle_exn x w1 of
                              (r, w2) \<Rightarrow> (Inr r, conn_close (cursor_close w2)))))))))"

text \<open>The same request sent again and again, each call with its own environment.\<close>

fun repeat_register ::
    "env list \<Rightarrow> request \<Rightarrow> world \<Rightarrow> (exn + response) list \<times> world" where
  "repeat_register [] req w = ([], w)"
| "repeat_register (env # envs) req w =
     (case register_user env req w of
        (r, w1) \<Rightarrow>
          (case repeat_register envs req w1 of
             (rs, w2) \<Rightarrow> (r # rs, w2)))"

section \<open>Sample inputs\<close>

text \<open>
  The theorems below hold for every \<open>hashpw\<close>. To evaluate the handler on a concrete
  request some function has to stand for the library; \<open>sample_hashpw\<close> is such a
  stand-in and nothing more.
\<close>

definition sample_hashpw :: "bytes \<Rightarrow> bytes \<Rightarrow> bytes" where
  "sample_hashpw pw salt = ascii ''$2b$12$'' @ salt @ map (\<lambda>b. 65 + b mod 26) pw"

definition env_up :: env where
  "env_up =
     \<lparr>connect_error = None, gensalt = ascii ''N9qo8uLOickgx2ZMRZoMye'',
      hashpw = sample_hashpw, execute_fault = None, commit_fault = None\<rparr>"

definition refused :: pystr where
  "refused = ascii ''connection refused''"

definition env_down :: env where
  "env_down = env_up\<lparr>connect_error := Some refused\<rparr>"

definition disk_full :: exn where
  "disk_full = Exn DatabaseError (ascii ''disk full'')"

definition env_fault :: env where
  "env_fault = env_up\<lparr>execute_fault := Some disk_full\<rparr>"

definition ana_name :: pyval where
  "ana_name = PStr (ascii ''ana'')"

definition ana_email :: pyval where
  "ana_email = PStr (ascii ''ana@example.com'')"

definition ana_password :: pyval where
  "ana_password = PStr (ascii ''Secret123'')"

definition ana_hash :: pystr where
  "ana_hash = ascii ''$2b$12$N9qo8uLOickgx2ZMRZoMyeFXVKXMXYZ''"

definition world0 :: world where
  "world0 =
     \<lparr>users = [], pending = [], next_id = 1, cursor_row = None, open_conns = 0,
      open_cursors = 0, printed = [], calls = []\<rparr>"

definition row_ana :: user_row where
  "row_ana =
     \<lparr>row_id = 1, row_username = ana_name, row_email = ana_email,
      row_password_hash = ana_hash\<rparr>"

definition world_ana :: world where
  "world_ana = world0\<lparr>users := [row_ana], next_id := 2\<rparr>"

definition json_request :: "(string \<times> pyval) list \<Rightarrow> request" where
  "json_request kvs = \<lparr>get_json = PDict (map (\<lambda>(k, v). (ascii k, v)) kvs), form = []\<rparr>"

definition req_ana :: request where
  "req_ana =
     json_request
       [(''username'', ana_name), (''email'', ana_email), (''password'', ana_password)]"

definition req_bob :: request where
  "req_bob = json_request [(''username'', PStr (ascii ''bob''))]"

definition req_form_ana :: request where
  "req_form_ana =
     \<lparr>get_json = PNone,
      form = [(ascii ''username'', ascii ''ana''), (ascii ''email'', ascii ''ana@example.com''),
              (ascii ''password'', ascii ''Secret123'')]\<rparr>"

definition req_int_password :: request where
  "req_int_password =
     json_request
       [(''username'', ana_name), (''email'', ana_email), (''password'', PInt 12345)]"

definition req_array :: request where
  "req_array = \<lparr>get_json = PList [PInt 1], form = []\<rparr>"

definition req_zero_username :: request where
  "req_zero_username =
     json_request
       [(''username'', PInt 0), (''email'', ana_email), (''password'', ana_password)]"

section \<open>Lemmas about the handler\<close>

lemmas store_defs =
  cursor_execute_def fetchone_0_def conn_commit_def conn_rollback_def conn_cursor_def
  cursor_close_def conn_close_def get_db_connection_def

lemmas handler_defs = register_user_def try_insert_def handle_exn_def

lemmas sample_defs =
  env_up_def env_down_def env_fault_def refused_def disk_full_def world0_def world_ana_def
  row_ana_def ana_name_def ana_email_def ana_password_def ana_hash_def json_request_def
  req_ana_def req_bob_def req_form_ana_def req_int_password_def req_array_def
  req_zero_username_def sample_hashpw_def

lemmas eval_defs =
  request_data_def hash_password_def decode_def no_attribute_def insert_raises_def
  duplicate_def unique_violation_def ascii_def encodable_def utf8_def

text \<open>A request with a falsy field, once the connection is there: 400, connection closed.\<close>

lemma register_user_invalid:
  assumes "connect_error env = None"
    and "data_get (request_data req) ''username'' = Inr u"
    and "data_get (request_data req) ''email'' = Inr e"
    and "data_get (request_data req) ''password'' = Inr p"
    and "\<not> truthy u \<or> \<not> truthy e \<or> \<not> truthy p"
  shows "register_user env req w =
           (Inr \<lparr>status = 400, body = [(''message'', PStr msg_missing)]\<rparr>,
            w\<lparr>pending := [], calls := calls w @ [Connect, ConnClose]\<rparr>)"
  using assms by (auto simp add: handler_defs store_defs)

text \<open>Without a connection the answer does not depend on the request.\<close>

lemma store_unavailable:
  assumes "connect_error env = Some m"
  shows "register_user env req w =
           (Inr \<lparr>status = 500, body = [(''message'', PStr msg_no_connection)]\<rparr>,
            w\<lparr>printed :=
                 printed w
                   @ [ascii ''ERROR: No se pudo conectar a la base de datos. Detalles: '' @ m],
               calls := calls w @ [Connect]\<rparr>)"
  using assms by (simp add: handler_defs store_defs)

text \<open>Whatever the request and the environment, the first call to the driver is the connect.\<close>

lemma connect_first:
  "take (Suc (length (calls w))) (calls (snd (register_user env req w))) = calls w @ [Connect]"
  by (auto simp add: handler_defs store_defs
        split: option.splits sum.splits prod.splits list.splits)

text \<open>The handler reads the request through \<open>data.get\<close> only.\<close>

lemma register_user_cong:
  assumes "\<And>k. data_get (request_data r1) k = data_get (request_data r2) k"
  shows "register_user env r1 w = register_user env r2 w"
  unfolding register_user_def assms ..

text \<open>A failing commit is handled like a failing insert.\<close>

lemma register_user_commit_error:
  assumes "connect_error env = None"
    and "data_get (request_data req) ''username'' = Inr u"
    and "data_get (request_data req) ''email'' = Inr e"
    and "data_get (request_data req) ''password'' = Inr p"
    and "truthy u" and "truthy e" and "truthy p"
    and "hash_password env p = Inr h"
    and "insert_raises env u e (users w) = None"
    and "commit_fault env = Some x"
    and "class_of x \<noteq> IntegrityError"
  shows "(case register_user env req w of
           (r, w') \<Rightarrow>
             r = Inr \<lparr>status = 500,
                      body = [(''message'', PStr msg_internal),
                              (''error_detail'', PStr (str_exn x))]\<rparr>
             \<and> users w' = users w
             \<and> pending w' = []
             \<and> calls w' =
                 calls w
                   @ [Connect, Cursor, Execute, Fetchone, Commit, Rollback, CursorClose,
                      ConnClose])"
  using assms by (simp add: handler_defs store_defs)

text \<open>
  Every path on which the handler returns a response leaves as many connections and cursors
  open as it found; every path on which an exception leaves the handler has opened a
  connection and made no other call.
\<close>

lemma handles_released_on_return:
  assumes "fst (register_user env req w) = Inr r"
  shows "open_conns (snd (register_user env req w)) = open_conns w
         \<and> open_cursors (snd (register_user env req w)) = open_cursors w"
  using assms
  by (auto simp add: handler_defs store_defs
        split: option.splits sum.splits prod.splits list.splits if_splits)

lemma connection_open_after_exception:
  assumes "fst (register_user env req w) = Inl x"
  shows "open_conns (snd (register_user env req w)) = Suc (open_conns w)
         \<and> calls (snd (register_user env req w)) = calls w @ [Connect]"
  using assms
  by (auto simp add: handler_defs store_defs
        split: option.splits sum.splits prod.splits list.splits if_splits)

section \<open>The claims\<close>

subsection \<open>Successful registration\<close>

text \<open>
  Claim C1. A request that yields truthy \<open>username\<close>, \<open>email\<close> and \<open>password\<close> and
  whose insert succeeds (the statement is accepted and so is the commit) is answered with
  201 and a body holding the identifier the store generated as \<open>user_id\<close>, the username as
  \<open>usuario\<close> and the email as \<open>correo\<close>; the write is committed and exactly one row is
  added to the table: the one with that identifier, username, email and the hash.
\<close>

theorem register_user_created:
  assumes "connect_error env = None"
    and "data_get (request_data req) ''username'' = Inr u"
    and "data_get (request_data req) ''email'' = Inr e"
    and "data_get (request_data req) ''password'' = Inr p"
    and "truthy u" and "truthy e" and "truthy p"
    and "hash_password env p = Inr h"
    and "insert_raises env u e (users w) = None"
    and "commit_fault env = None"
  shows "(case register_user env req w of
           (r, w') \<Rightarrow>
             r = Inr \<lparr>status = 201,
                      body = [(''message'', PStr msg_registered), (''user_id'', PInt (next_id w)),
                              (''usuario'', u), (''correo'', e)]\<rparr>
             \<and> users w' =
                 users w
                   @ [\<lparr>row_id = next_id w, row_username = u, row_email = e,
                       row_password_hash = h\<rparr>]
             \<and> pending w' = []
             \<and> calls w' =
                 calls w @ [Connect, Cursor, Execute, Fetchone, Commit, CursorClose, ConnClose])"
  using assms by (simp add: handler_defs store_defs)

theorem register_user_created_witness:
  "connect_error env_up = None
   \<and> data_get (request_data req_ana) ''username'' = Inr ana_name
   \<and> data_get (request_data req_ana) ''email'' = Inr ana_email
   \<and> data_get (request_data req_ana) ''password'' = Inr ana_password
   \<and> truthy ana_name \<and> truthy ana_email \<and> truthy ana_password
   \<and> hash_password env_up ana_password = Inr ana_hash
   \<and> insert_raises env_up ana_name ana_email (users world0) = None
   \<and> commit_fault env_up = None
   \<and> (case register_user env_up req_ana world0 of
         (r, w') \<Rightarrow>
           r = Inr \<lparr>status = 201,
                    body = [(''message'', PStr msg_registered),
                            (''user_id'', PInt (next_id world0)),
                            (''usuario'', ana_name), (''correo'', ana_email)]\<rparr>
           \<and> users w' =
               users world0
                 @ [\<lparr>row_id = next_id world0, row_username = ana_name, row_email = ana_email,
                     row_password_hash = ana_hash\<rparr>]
           \<and> pending w' = []
           \<and> calls w' =
               calls world0
                 @ [Connect, Cursor, Execute, Fetchone, Commit, CursorClose, ConnClose])"
proof -
  have h1: "connect_error env_up = None"
    by (simp add: sample_defs)
  have h2: "data_get (request_data req_ana) ''username'' = Inr ana_name"
    by (simp add: sample_defs eval_defs)
  have h3: "data_get (request_data req_ana) ''email'' = Inr ana_email"
    by (simp add: sample_defs eval_defs)
  have h4: "data_get (request_data req_ana) ''password'' = Inr ana_password"
    by (simp add: sample_defs eval_defs)
  have h5: "truthy ana_name" and h6: "truthy ana_email" and h7: "truthy ana_password"
    by (simp_all add: sample_defs eval_defs)
  have h8: "hash_password env_up ana_password = Inr ana_hash"
    by (simp add: sample_defs eval_defs)
  have h9: "insert_raises env_up ana_name ana_email (users world0) = None"
    by (simp add: sample_defs eval_defs)
  have h10: "commit_fault env_up = None"
    by (simp add: sample_defs)
  note c = register_user_created [OF h1 h2 h3 h4 h5 h6 h7 h8 h9 h10]
  show ?thesis
    by (intro conjI h1 h2 h3 h4 h5 h6 h7 h8 h9 h10 c)
qed

subsection \<open>Duplicate username or email\<close>

text \<open>
  Claim C2. When the insert raises the store's uniqueness violation (\<open>IntegrityError\<close>),
  the handler rolls the transaction back and answers 409 with the message that the user or
  the email is registered already; the table is as it was and no row is pending.
\<close>

theorem register_user_conflict:
  assumes "connect_error env = None"
    and "data_get (request_data req) ''username'' = Inr u"
    and "data_get (request_data req) ''email'' = Inr e"
    and "data_get (request_data req) ''password'' = Inr p"
    and "truthy u" and "truthy e" and "truthy p"
    and "hash_password env p = Inr h"
    and "insert_raises env u e (users w) = Some x"
    and "class_of x = IntegrityError"
  shows "(case register_user env req w of
           (r, w') \<Rightarrow>
             r = Inr \<lparr>status = 409, body = [(''message'', PStr msg_duplicate)]\<rparr>
             \<and> users w' = users w
             \<and> pending w' = []
             \<and> calls w' = calls w @ [Connect, Cursor, Execute, Rollback, CursorClose, ConnClose])"
  using assms by (simp add: handler_defs store_defs)

theorem register_user_conflict_witness:
  "connect_error env_up = None
   \<and> data_get (request_data req_ana) ''username'' = Inr ana_name
   \<and> data_get (request_data req_ana) ''email'' = Inr ana_email
   \<and> data_get (request_data req_ana) ''password'' = Inr ana_password
   \<and> truthy ana_name \<and> truthy ana_email \<and> truthy ana_password
   \<and> hash_password env_up ana_password = Inr ana_hash
   \<and> insert_raises env_up ana_name ana_email (users world_ana) = Some unique_violation
   \<and> class_of unique_violation = IntegrityError
   \<and> (case register_user env_up req_ana world_ana of
         (r, w') \<Rightarrow>
           r = Inr \<lparr>status = 409, body = [(''message'', PStr msg_duplicate)]\<rparr>
           \<and> users w' = users world_ana
           \<and> pending w' = []
           \<and> calls w' =
               calls world_ana @ [Connect, Cursor, Execute, Rollback, CursorClose, ConnClose])"
proof -
  have h1: "connect_error env_up = None"
    by (simp add: sample_defs)
  have h2: "data_get (request_data req_ana) ''username'' = Inr ana_name"
    by (simp add: sample_defs eval_defs)
  have h3: "data_get (request_data req_ana) ''email'' = Inr ana_email"
    by (simp add: sample_defs eval_defs)
  have h4: "data_get (request_data req_ana) ''password'' = Inr ana_password"
    by (simp add: sample_defs eval_defs)
  have h5: "truthy ana_name" and h6: "truthy ana_email" and h7: "truthy ana_password"
    by (simp_all add: sample_defs eval_defs)
  have h8: "hash_password env_up ana_password = Inr ana_hash"
    by (simp add: sample_defs eval_defs)
  have h9: "insert_raises env_up ana_name ana_email (users world_ana) = Some unique_violation"
    by (simp add: sample_defs eval_defs)
  have h10: "class_of unique_violation = IntegrityError"
    by (simp add: unique_violation_def)
  note c = register_user_conflict [OF h1 h2 h3 h4 h5 h6 h7 h8 h9 h10]
  show ?thesis
    by (intro conjI h1 h2 h3 h4 h5 h6 h7 h8 h9 h10 c)
qed

subsection \<open>Any other store error\<close>

text \<open>
  Claim C6. When the insert fails with any exception that is not the uniqueness violation,
  the handler rolls the transaction back, prints the cause to the server's log and answers
  500 with a generic message and the text of the exception as \<open>error_detail\<close>; the table
  is as it was.
\<close>

theorem register_user_store_error:
  assumes "connect_error env = None"
    and "data_get (request_data req) ''username'' = Inr u"
    and "data_get (request_data req) ''email'' = Inr e"
    and "data_get (request_data req) ''password'' = Inr p"
    and "truthy u" and "truthy e" and "truthy p"
    and "hash_password env p = Inr h"
    and "insert_raises env u e (users w) = Some x"
    and "class_of x \<noteq> IntegrityError"
  shows "(case register_user env req w of
           (r, w') \<Rightarrow>
             r = Inr \<lparr>status = 500,
                      body = [(''message'', PStr msg_internal),
                              (''error_detail'', PStr (str_exn x))]\<rparr>
             \<and> users w' = users w
             \<and> pending w' = []
             \<and> printed w' = printed w @ [ascii ''Error al registrar usuario: '' @ str_exn x]
             \<and> calls w' = calls w @ [Connect, Cursor, Execute, Rollback, CursorClose, ConnClose])"
  using assms by (simp add: handler_defs store_defs)

theorem register_user_store_error_witness:
  "connect_error env_fault = None
   \<and> data_get (request_data req_ana) ''username'' = Inr ana_name
   \<and> data_get (request_data req_ana) ''email'' = Inr ana_email
   \<and> data_get (request_data req_ana) ''password'' = Inr ana_password
   \<and> truthy ana_name \<and> truthy ana_email \<and> truthy ana_password
   \<and> hash_password env_fault ana_password = Inr ana_hash
   \<and> insert_raises env_fault ana_name ana_email (users world0) = Some disk_full
   \<and> class_of disk_full \<noteq> IntegrityError
   \<and> (case register_user env_fault req_ana world0 of
         (r, w') \<Rightarrow>
           r = Inr \<lparr>status = 500,
                    body = [(''message'', PStr msg_internal),
                            (''error_detail'', PStr (str_exn disk_full))]\<rparr>
           \<and> users w' = users world0
           \<and> pending w' = []
           \<and> printed w' =
               printed world0 @ [ascii ''Error al registrar usuario: '' @ str_exn disk_full]
           \<and> calls w' =
               calls world0 @ [Connect, Cursor, Execute, Rollback, CursorClose, ConnClose])"
proof -
  have h1: "connect_error env_fault = None"
    by (simp add: sample_defs)
  have h2: "data_get (request_data req_ana) ''username'' = Inr ana_name"
    by (simp add: sample_defs eval_defs)
  have h3: "data_get (request_data req_ana) ''email'' = Inr ana_email"
    by (simp add: sample_defs eval_defs)
  have h4: "data_get (request_data req_ana) ''password'' = Inr ana_password"
    by (simp add: sample_defs eval_defs)
  have h5: "truthy ana_name" and h6: "truthy ana_email" and h7: "truthy ana_password"
    by (simp_all add: sample_defs eval_defs)
  have h8: "hash_password env_fault ana_password = Inr ana_hash"
    by (simp add: sample_defs eval_defs)
  have h9: "insert_raises env_fault ana_name ana_email (users world0) = Some disk_full"
    by (simp add: env_fault_def env_up_def insert_raises_def)
  have h10: "class_of disk_full \<noteq> IntegrityError"
    by (simp add: disk_full_def)
  note c = register_user_store_error [OF h1 h2 h3 h4 h5 h6 h7 h8 h9 h10]
  show ?thesis
    by (intro conjI h1 h2 h3 h4 h5 h6 h7 h8 h9 h10 c)
qed

subsection \<open>Store unavailable\<close>

text \<open>
  Claim C5. The first thing every call does is to ask for the connection; when the
  connection cannot be established the handler answers 500 whatever the request is, also
  for a body it could not have read: the request is not looked at.
\<close>

theorem store_unavailable_first:
  "take (Suc (length (calls w))) (calls (snd (register_user env req w))) = calls w @ [Connect]
   \<and> (connect_error env = Some m \<longrightarrow>
        register_user env req w =
          (Inr \<lparr>status = 500, body = [(''message'', PStr msg_no_connection)]\<rparr>,
           w\<lparr>printed :=
                printed w
                  @ [ascii ''ERROR: No se pudo conectar a la base de datos. Detalles: '' @ m],
              calls := calls w @ [Connect]\<rparr>))"
  by (intro conjI impI connect_first store_unavailable)

theorem store_unavailable_first_witness:
  "connect_error env_down = Some refused
   \<and> data_get (request_data req_array) ''username'' = Inl (no_attribute (PList [PInt 1]) ''get'')
   \<and> register_user env_down req_array world0 =
       (Inr \<lparr>status = 500, body = [(''message'', PStr msg_no_connection)]\<rparr>,
        world0
          \<lparr>printed :=
             printed world0
               @ [ascii ''ERROR: No se pudo conectar a la base de datos. Detalles: '' @ refused],
           calls := calls world0 @ [Connect]\<rparr>)"
proof -
  have h1: "connect_error env_down = Some refused"
    by (simp add: env_down_def)
  have h2: "data_get (request_data req_array) ''username''
              = Inl (no_attribute (PList [PInt 1]) ''get'')"
    by (simp add: req_array_def request_data_def)
  from store_unavailable_first [of world0 env_down req_array refused] h1
  have c: "register_user env_down req_array world0 =
       (Inr \<lparr>status = 500, body = [(''message'', PStr msg_no_connection)]\<rparr>,
        world0
          \<lparr>printed :=
             printed world0
               @ [ascii ''ERROR: No se pudo conectar a la base de datos. Detalles: '' @ refused],
           calls := calls world0 @ [Connect]\<rparr>)"
    by blast
  show ?thesis
    by (intro conjI h1 h2 c)
qed

subsection \<open>Missing fields\<close>

text \<open>
  Claim C3, as stated, says that every request with an absent or empty field is answered
  with 400. It is not so when the store cannot be reached: the handler asks for the
  connection before it looks at the request and answers 500. Here the request carries
  a username only and the connection is refused.
\<close>

theorem missing_fields_store_down_counterexample:
  "data_get (request_data req_bob) ''email'' = Inr PNone
   \<and> \<not> truthy PNone
   \<and> fst (register_user env_down req_bob world0) =
       Inr \<lparr>status = 500, body = [(''message'', PStr msg_no_connection)]\<rparr>"
  by (simp add: store_unavailable env_down_def req_bob_def json_request_def request_data_def
        ascii_def)

text \<open>
  Claim C3, amended. When the connection is established and the body is one the fields
  can be read from (a JSON object, or the form when there is no JSON), a request in which
  \<open>username\<close>, \<open>email\<close> or \<open>password\<close> is absent or empty is answered with 400; the
  only calls to the driver are the connect and the close, so nothing is inserted and the
  table is as it was. Sending the request again and again, each time with the connection
  established, gives 400 each time and never adds a row.
\<close>

theorem missing_fields_rejected:
  assumes "list_all (\<lambda>env. connect_error env = None) envs"
    and "data_get (request_data req) ''username'' = Inr u"
    and "data_get (request_data req) ''email'' = Inr e"
    and "data_get (request_data req) ''password'' = Inr p"
    and "\<not> truthy u \<or> \<not> truthy e \<or> \<not> truthy p"
  shows "(case repeat_register envs req w of
           (rs, w') \<Rightarrow>
             rs = replicate (length envs)
                    (Inr \<lparr>status = 400, body = [(''message'', PStr msg_missing)]\<rparr>)
             \<and> users w' = users w
             \<and> calls w' = calls w @ concat (replicate (length envs) [Connect, ConnClose]))"
  using assms(1)
proof (induction envs arbitrary: w)
  case Nil
  show ?case by simp
next
  case (Cons env envs)
  from Cons.prems have c: "connect_error env = None"
    and rest: "list_all (\<lambda>env. connect_error env = None) envs"
    by simp_all
  note step = register_user_invalid [OF c assms(2) assms(3) assms(4) assms(5), of w]
  from Cons.IH [OF rest, of "w\<lparr>pending := [], calls := calls w @ [Connect, ConnClose]\<rparr>"]
  show ?case
    by (simp add: step split: prod.splits)
qed

theorem missing_fields_rejected_witness:
  "list_all (\<lambda>env. connect_error env = None) [env_up, env_fault, env_up]
   \<and> data_get (request_data req_bob) ''username'' = Inr (PStr (ascii ''bob''))
   \<and> data_get (request_data req_bob) ''email'' = Inr PNone
   \<and> data_get (request_data req_bob) ''password'' = Inr PNone
   \<and> \<not> truthy PNone
   \<and> (case repeat_register [env_up, env_fault, env_up] req_bob world_ana of
         (rs, w') \<Rightarrow>
           rs = replicate (length [env_up, env_fault, env_up])
                  (Inr \<lparr>status = 400, body = [(''message'', PStr msg_missing)]\<rparr>)
           \<and> users w' = users world_ana
           \<and> calls w' =
               calls world_ana
                 @ concat (replicate (length [env_up, env_fault, env_up]) [Connect, ConnClose]))"
proof -
  have h1: "list_all (\<lambda>env. connect_error env = None) [env_up, env_fault, env_up]"
    by (simp add: env_up_def env_fault_def)
  have h2: "data_get (request_data req_bob) ''username'' = Inr (PStr (ascii ''bob''))"
    by (simp add: sample_defs eval_defs)
  have h3: "data_get (request_data req_bob) ''email'' = Inr PNone"
    by (simp add: sample_defs eval_defs)
  have h4: "data_get (request_data req_bob) ''password'' = Inr PNone"
    by (simp add: sample_defs eval_defs)
  have f: "\<not> truthy PNone"
    by simp
  then have h5: "\<not> truthy (PStr (ascii ''bob'')) \<or> \<not> truthy PNone \<or> \<not> truthy PNone"
    by simp
  note c = missing_fields_rejected [OF h1 h2 h3 h4 h5, of world_ana]
  show ?thesis
    by (intro conjI h1 h2 h3 h4 f c)
qed

subsection \<open>Falsy values\<close>

text \<open>
  Claim C10, as stated, says that every JSON request with a field bound to a falsy value is
  answered with 400. As for C3 it is not so when the store cannot be reached: here
  \<open>username\<close> is bound to 0, the connection is refused, and the answer is 500.
\<close>

theorem falsy_value_store_down_counterexample:
  "data_get (request_data req_zero_username) ''username'' = Inr (PInt 0)
   \<and> \<not> truthy (PInt 0)
   \<and> fst (register_user env_down req_zero_username world0) =
       Inr \<lparr>status = 500, body = [(''message'', PStr msg_no_connection)]\<rparr>"
  by (simp add: store_unavailable env_down_def req_zero_username_def json_request_def
        request_data_def ascii_def)

text \<open>
  Claim C10, amended. When the connection is established, a JSON object in which
  \<open>username\<close>, \<open>email\<close> or \<open>password\<close> is present but bound to a falsy value (0,
  \<open>false\<close>, \<open>null\<close>, an empty list, an empty object, an empty string) is handled as if
  the field were missing: 400, no insert, the table as it was. The check is the truth
  value of the field, not the presence of the key.
\<close>

theorem falsy_value_rejected:
  assumes "connect_error env = None"
    and "get_json req = PDict kvs"
    and "k = ''username'' \<or> k = ''email'' \<or> k = ''password''"
    and "map_of kvs (ascii k) = Some v"
    and "v = PInt 0 \<or> v = PBool False \<or> v = PNone \<or> v = PList [] \<or> v = PDict []
         \<or> v = PStr []"
  shows "(case register_user env req w of
           (r, w') \<Rightarrow>
             r = Inr \<lparr>status = 400, body = [(''message'', PStr msg_missing)]\<rparr>
             \<and> users w' = users w
             \<and> calls w' = calls w @ [Connect, ConnClose])"
proof -
  have d: "request_data req = Json (PDict kvs)"
    using assms(2) by (simp add: request_data_def)
  obtain u e p where g:
    "data_get (request_data req) ''username'' = Inr u"
    "data_get (request_data req) ''email'' = Inr e"
    "data_get (request_data req) ''password'' = Inr p"
    by (simp add: d)
  have f: "\<not> truthy v"
    using assms(5) by auto
  have "\<not> truthy u \<or> \<not> truthy e \<or> \<not> truthy p"
    using assms(3) assms(4) f g by (auto simp add: d)
  from register_user_invalid [OF assms(1) g this, of w] show ?thesis
    by simp
qed

theorem falsy_value_rejected_witness:
  "connect_error env_up = None
   \<and> get_json req_zero_username =
       PDict [(ascii ''username'', PInt 0), (ascii ''email'', ana_email),
              (ascii ''password'', ana_password)]
   \<and> (''username'' = ''username'' \<or> ''username'' = ''email'' \<or> ''username'' = ''password'')
   \<and> map_of [(ascii ''username'', PInt 0), (ascii ''email'', ana_email),
              (ascii ''password'', ana_password)] (ascii ''username'') = Some (PInt 0)
   \<and> (PInt 0 = PInt 0 \<or> PInt 0 = PBool False \<or> PInt 0 = PNone \<or> PInt 0 = PList []
        \<or> PInt 0 = PDict [] \<or> PInt 0 = PStr [])
   \<and> (case register_user env_up req_zero_username world0 of
         (r, w') \<Rightarrow>
           r = Inr \<lparr>status = 400, body = [(''message'', PStr msg_missing)]\<rparr>
           \<and> users w' = users world0
           \<and> calls w' = calls world0 @ [Connect, ConnClose])"
proof -
  have h1: "connect_error env_up = None"
    by (simp add: env_up_def)
  have h2: "get_json req_zero_username =
       PDict [(ascii ''username'', PInt 0), (ascii ''email'', ana_email),
              (ascii ''password'', ana_password)]"
    by (simp add: req_zero_username_def json_request_def)
  have h3: "''username'' = ''username'' \<or> ''username'' = ''email'' \<or> ''username'' = ''password''"
    by simp
  have h4: "map_of [(ascii ''username'', PInt 0), (ascii ''email'', ana_email),
              (ascii ''password'', ana_password)] (ascii ''username'') = Some (PInt 0)"
    by simp
  have h5: "PInt 0 = PInt 0 \<or> PInt 0 = PBool False \<or> PInt 0 = PNone \<or> PInt 0 = PList []
        \<or> PInt 0 = PDict [] \<or> PInt 0 = PStr []"
    by simp
  note c = falsy_value_rejected [OF h1 h2 h3 h4 h5, of world0]
  show ?thesis
    by (intro conjI h1 h2 h3 h4 h5 c)
qed

subsection \<open>JSON first, the form as fallback\<close>

text \<open>
  Claim C9. When \<open>get_json\<close> gives a value the form is not looked at: whatever the form
  holds, the outcome is the same. When it gives \<open>None\<close> the fields are read from the
  form, and the request is handled exactly as the JSON object with the same fields would
  be: the fallback is an ordinary path through the handler.
\<close>

theorem json_preferred_form_fallback:
  "(get_json req \<noteq> PNone \<longrightarrow>
      register_user env (req\<lparr>form := f\<rparr>) w = register_user env req w)
   \<and> (get_json req = PNone \<longrightarrow>
        register_user env req w =
          register_user env
            \<lparr>get_json = PDict (map (\<lambda>(k, v). (k, PStr v)) (form req)), form = f\<rparr> w)"
proof (intro conjI impI)
  assume "get_json req \<noteq> PNone"
  then show "register_user env (req\<lparr>form := f\<rparr>) w = register_user env req w"
    by (intro register_user_cong) (simp add: request_data_def)
next
  assume n: "get_json req = PNone"
  have m: "map_of (map (\<lambda>(k, v). (k, PStr v)) (form req)) k
             = map_option PStr (map_of (form req) k)" for k
    by (induction "form req" rule: list.induct) (auto simp add: map_of_map o_def)
  show "register_user env req w =
          register_user env
            \<lparr>get_json = PDict (map (\<lambda>(k, v). (k, PStr v)) (form req)), form = f\<rparr> w"
    by (intro register_user_cong) (simp add: request_data_def n m split: option.splits)
qed

theorem json_preferred_form_fallback_witness:
  "get_json req_ana \<noteq> PNone
   \<and> register_user env_up (req_ana\<lparr>form := [(ascii ''username'', ascii ''eve'')]\<rparr>) world0
       = register_user env_up req_ana world0
   \<and> get_json req_form_ana = PNone
   \<and> register_user env_up req_form_ana world0 =
       register_user env_up
         \<lparr>get_json = PDict (map (\<lambda>(k, v). (k, PStr v)) (form req_form_ana)), form = []\<rparr>
         world0
   \<and> fst (register_user env_up req_form_ana world0) =
       Inr \<lparr>status = 201,
            body = [(''message'', PStr msg_registered), (''user_id'', PInt 1),
                    (''usuario'', ana_name), (''correo'', ana_email)]\<rparr>"
proof -
  have h1: "get_json req_ana \<noteq> PNone"
    by (simp add: req_ana_def json_request_def)
  have h2: "get_json req_form_ana = PNone"
    by (simp add: req_form_ana_def)
  from json_preferred_form_fallback
         [of req_ana env_up "[(ascii ''username'', ascii ''eve'')]" world0] h1
  have c1: "register_user env_up (req_ana\<lparr>form := [(ascii ''username'', ascii ''eve'')]\<rparr>)
              world0 = register_user env_up req_ana world0"
    by blast
  from json_preferred_form_fallback [of req_form_ana env_up "[]" world0] h2
  have c2: "register_user env_up req_form_ana world0 =
       register_user env_up
         \<lparr>get_json = PDict (map (\<lambda>(k, v). (k, PStr v)) (form req_form_ana)), form = []\<rparr>
         world0"
    by blast
  have c3: "fst (register_user env_up req_form_ana world0) =
       Inr \<lparr>status = 201,
            body = [(''message'', PStr msg_registered), (''user_id'', PInt 1),
                    (''usuario'', ana_name), (''correo'', ana_email)]\<rparr>"
    by (simp add: handler_defs store_defs sample_defs eval_defs)
  show ?thesis
    by (intro conjI h1 h2 c1 c2 c3)
qed

subsection \<open>Exceptions raised before the \<open>try\<close>\<close>

text \<open>
  Claim C7 says that the connection is released on every exit path, for every possible
  request body. The statements between the connect and the \<open>try\<close> are outside the
  \<open>finally\<close>: here \<open>password\<close> is the number 12345, \<open>password.encode\<close> raises
  \<open>AttributeError\<close>, and the call ends with the connection it opened still open and no
  call to the driver but the connect.
\<close>

theorem connection_left_open_on_number_password:
  "fst (register_user env_up req_int_password world0)
     = Inl (no_attribute (PInt 12345) ''encode'')
   \<and> open_conns world0 = 0
   \<and> open_conns (snd (register_user env_up req_int_password world0)) = 1
   \<and> calls (snd (register_user env_up req_int_password world0)) = [Connect]"
  by (simp add: handler_defs store_defs sample_defs eval_defs)

theorem connection_left_open_on_number_password_witness:
  "open_conns (snd (register_user env_up req_int_password world0)) = Suc (open_conns world0)"
  using connection_left_open_on_number_password by simp

text \<open>
  Claim C8 says that no exception leaves the handler, for every request body. Here the
  body is the JSON array \<open>[1]\<close>: \<open>data.get\<close> raises \<open>AttributeError\<close> before the
  \<open>try\<close> is entered, and the exception leaves the handler.
\<close>

theorem exception_escapes_on_json_array:
  "fst (register_user env_up req_array world0) = Inl (no_attribute (PList [PInt 1]) ''get'')"
  by (simp add: register_user_def get_db_connection_def request_data_def env_up_def
        req_array_def)

theorem exception_escapes_on_json_array_witness:
  "isl (fst (register_user env_up req_array world0))"
  using exception_escapes_on_json_array by simp

end
